theory Spec2Isabelle
  imports Main "HOL-Library.Word" "HOL-Library.Multiset"
begin

section \<open>JavaScript strings, numbers and errors\<close>

text \<open>
  A JavaScript string is a sequence of UTF-16 code units. The renderer of
  \<^verbatim>\<open>Tree.toString\<close> writes box-drawing characters that lie outside ASCII, so strings
  are lists of 16-bit words and the characters the source writes are named constants.
\<close>

type_synonym jsstring = "16 word list"

definition NL :: "16 word" where \<comment> \<open>line feed, the \<^verbatim>\<open>\n\<close> of the source\<close>
  "NL = 0x000A"

definition SP :: "16 word" where \<comment> \<open>space\<close>
  "SP = 0x0020"

definition BOX_H :: "16 word" where \<comment> \<open>U+2500, box drawings light horizontal\<close>
  "BOX_H = 0x2500"

definition BOX_V :: "16 word" where \<comment> \<open>U+2502, box drawings light vertical\<close>
  "BOX_V = 0x2502"

definition BOX_UR :: "16 word" where \<comment> \<open>U+2514, box drawings light up and right\<close>
  "BOX_UR = 0x2514"

definition BOX_VR :: "16 word" where \<comment> \<open>U+251C, box drawings light vertical and right\<close>
  "BOX_VR = 0x251C"

text \<open>
  The default string conversion of a number, for the integers: decimal digits, with a
  minus sign for a negative one. (JavaScript numbers are doubles; the conversion below is
  theirs on the integers of magnitude below \<open>10^21\<close>.)
\<close>

fun digits :: "nat \<Rightarrow> jsstring" where
  "digits n = (if n < 10 then [of_nat (48 + n)] else digits (n div 10) @ [of_nat (48 + n mod 10)])"

declare digits.simps [simp del]

definition Number_toString :: "int \<Rightarrow> jsstring" where
  "Number_toString i = (if i < 0 then 0x002D # digits (nat (- i)) else digits (nat i))"

text \<open>
  Both errors of the source are plain \<^verbatim>\<open>Error\<close> objects told apart by their message.
  The specification calls the first \<open>InvalidValue\<close> and the second
  \<open>UnsupportedOperation\<close>.
\<close>

datatype error = Error string

definition InvalidValue :: error where
  "InvalidValue = Error ''The value of a tree cannot be undefined.''"

definition UnsupportedOperation :: error where
  "UnsupportedOperation = Error ''BinaryTree.add is not a function. Use BinaryTree.insert instead.''"

text \<open>
  JavaScript reports a method call on \<^verbatim>\<open>null\<close> or \<^verbatim>\<open>undefined\<close> as a
  \<^verbatim>\<open>TypeError\<close>; only the call sequences that build example trees can meet it.
\<close>

definition TypeError :: error where
  "TypeError = Error ''TypeError''"

section \<open>Tree\<close>

text \<open>
  A node holds a value and an array of child slots; a slot is a node or \<^verbatim>\<open>null\<close>
  (\<open>None\<close>). The value type \<open>'a\<close> ranges over the defined values of the source's type
  parameter \<^verbatim>\<open>T\<close>: \<^verbatim>\<open>undefined\<close> is what the constructor rejects, so an argument that
  may be \<^verbatim>\<open>undefined\<close> is an \<open>option\<close>. \<^verbatim>\<open>null\<close> is a value the constructor accepts;
  \<^verbatim>\<open>search\<close>, the one method that tells \<^verbatim>\<open>null\<close> from the other values, is stated on
  trees of values \<open>'a option\<close>, where \<open>None\<close> is \<^verbatim>\<open>null\<close>.

  The methods mutate the receiver in place. The specification requires every child to be
  owned by one parent (no sharing, no cycles), so a tree is a value of a datatype and a
  mutating method returns the receiver's new state.
\<close>

datatype 'a tree = Tree (tree_value: 'a) (children: "'a tree option list")

text \<open>\<^verbatim>\<open>constructor(value: T, children: Tree<T>[] = [])\<close>; an omitted argument is \<open>None\<close>.\<close>

definition new_Tree :: "'a option \<Rightarrow> 'a tree option list option \<Rightarrow> error + 'a tree" where
  "new_Tree v cs =
     (case v of
        None \<Rightarrow> Inl InvalidValue
      | Some x \<Rightarrow> Inr (Tree x (case cs of None \<Rightarrow> [] | Some ys \<Rightarrow> ys)))"

text \<open>\<^verbatim>\<open>add(value)\<close>: \<^verbatim>\<open>this.children.push(new Tree(value))\<close>.\<close>

definition add :: "'a option \<Rightarrow> 'a tree \<Rightarrow> error + 'a tree" where
  "add v this =
     (case new_Tree v None of
        Inl e \<Rightarrow> Inl e
      | Inr child \<Rightarrow> Inr (Tree (tree_value this) (children this @ [Some child])))"




text \<open>
  \<^verbatim>\<open>Math.max(...heights)\<close> on natural numbers. The source calls it on a non-empty array
  only (on an empty one JavaScript returns \<open>-Infinity\<close>).
\<close>

definition Math_max :: "nat list \<Rightarrow> nat" where
  "Math_max xs = fold max xs 0"

text \<open>\<^verbatim>\<open>height()\<close>; \<^verbatim>\<open>child?.height() ?? 0\<close> is 0 on a \<^verbatim>\<open>null\<close> slot.\<close>

fun height :: "'a tree \<Rightarrow> nat" where
  "height (Tree v cs) =
     (if length cs = 0 then 0
      else Math_max (map (\<lambda>child. case child of None \<Rightarrow> 0 | Some c \<Rightarrow> height c) cs) + 1)"

text \<open>\<^verbatim>\<open>invert()\<close>: reverse the array, then invert every child that is not \<^verbatim>\<open>null\<close>.\<close>

fun invert :: "'a tree \<Rightarrow> 'a tree" where
  "invert (Tree v cs) = Tree v (map (map_option invert) (rev cs))"

text \<open>\<^verbatim>\<open>childOutput.replace(/\n/g, `\n${childPrefix}`)\<close>\<close>

definition replace_newlines :: "jsstring \<Rightarrow> jsstring \<Rightarrow> jsstring" where
  "replace_newlines childOutput childPrefix =
     concat (map (\<lambda>c. if c = NL then NL # childPrefix else [c]) childOutput)"

text \<open>
  The \<^verbatim>\<open>for (let i = 0; i < children.length; i++)\<close> loop of \<^verbatim>\<open>toString\<close>, over the
  outputs of the children (\<open>None\<close> for a \<^verbatim>\<open>null\<close> child, which the loop skips).
\<close>

function toString_loop :: "jsstring option list \<Rightarrow> nat \<Rightarrow> jsstring \<Rightarrow> jsstring" where
  "toString_loop childOutputs i output =
     (if i < length childOutputs then
        (case childOutputs ! i of
           None \<Rightarrow> toString_loop childOutputs (i + 1) output
         | Some childOutput \<Rightarrow>
             (let lastChild = (i = length childOutputs - 1);
                  valuePrefix = (if lastChild then [BOX_UR, BOX_H] else [BOX_VR, BOX_H]);
                  childPrefix = (if lastChild then [SP, SP] else [BOX_V, SP]);
                  childOutput' = valuePrefix @ replace_newlines childOutput childPrefix
              in toString_loop childOutputs (i + 1) (output @ NL # childOutput')))
      else output)"
  by pat_completeness auto
termination
  by (relation "measure (\<lambda>(childOutputs, i, output). length childOutputs - i)") auto

declare toString_loop.simps [simp del]

text \<open>
  \<^verbatim>\<open>toString(predicate?)\<close>. \<open>String\<close> is the default string conversion of the value
  type (what the template literal applies to \<^verbatim>\<open>this.value\<close>); \<open>predicate\<close> is the
  optional custom renderer. The recursive call is \<^verbatim>\<open>child.toString()\<close>, with no
  argument.
\<close>

fun toString :: "('a \<Rightarrow> jsstring) \<Rightarrow> ('a \<Rightarrow> jsstring) option \<Rightarrow> 'a tree \<Rightarrow> jsstring" where
  "toString String predicate (Tree v cs) =
     (let output = (case predicate of Some p \<Rightarrow> p v | None \<Rightarrow> String v);
          children' = filter (\<lambda>child. child \<noteq> None) cs
      in if length children' = 0 then output
         else toString_loop (map (map_option (toString String None)) children') 0 output)"

section \<open>BinaryTree\<close>

text \<open>
  \<^verbatim>\<open>BinaryTree\<close> extends \<^verbatim>\<open>Tree\<close>. Its constructor sets the child array to
  \<^verbatim>\<open>[left, right]\<close>, the accessors \<^verbatim>\<open>left\<close> and \<^verbatim>\<open>right\<close> read and write slots 0 and
  1, and \<^verbatim>\<open>add\<close> is disabled, so the array of a binary tree always has exactly these two
  slots. \<open>as_Tree\<close> is the binary tree seen as the \<^verbatim>\<open>Tree\<close> it is, which is what the
  inherited methods (\<^verbatim>\<open>height\<close>, \<^verbatim>\<open>search\<close>, \<^verbatim>\<open>toString\<close>) run on.

  No method reads the \<^verbatim>\<open>parent\<close> back-reference that the setters write, so it is left
  out here; the object store of the last section has it.
\<close>

datatype 'a binary_tree =
  BinaryTree (bt_value: 'a) (left: "'a binary_tree option") (right: "'a binary_tree option")

fun as_Tree :: "'a binary_tree \<Rightarrow> 'a tree" where
  "as_Tree (BinaryTree v l r) = Tree v [map_option as_Tree l, map_option as_Tree r]"

text \<open>
  \<^verbatim>\<open>constructor(value, left = null, right = null)\<close>: \<^verbatim>\<open>super(value)\<close> is the check of
  the \<^verbatim>\<open>Tree\<close> constructor.
\<close>

definition new_BinaryTree ::
  "'a option \<Rightarrow> 'a binary_tree option \<Rightarrow> 'a binary_tree option \<Rightarrow> error + 'a binary_tree" where
  "new_BinaryTree v l r =
     (case new_Tree v None of
        Inl e \<Rightarrow> Inl e
      | Inr super \<Rightarrow> Inr (BinaryTree (tree_value super) l r))"

text \<open>
  \<^verbatim>\<open>insert(value)\<close>. The comparisons \<^verbatim>\<open><\<close> and \<^verbatim>\<open>>\<close> are those of a linear order, as
  the specification requires of the value type (JavaScript's are one on strings and on
  the numbers other than \<open>NaN\<close>). \<^verbatim>\<open>new BinaryTree(value)\<close> cannot fail on a value that
  was compared, so the new leaf is written as the node the constructor returns.
\<close>

fun insert_BinaryTree :: "'a::linorder \<Rightarrow> 'a binary_tree \<Rightarrow> 'a binary_tree" where
  "insert_BinaryTree x (BinaryTree v l r) =
     (if x < v then
        (case l of
           None \<Rightarrow> BinaryTree v (Some (BinaryTree x None None)) r
         | Some lt \<Rightarrow> BinaryTree v (Some (insert_BinaryTree x lt)) r)
      else if x > v then
        (case r of
           None \<Rightarrow> BinaryTree v l (Some (BinaryTree x None None))
         | Some rt \<Rightarrow> BinaryTree v l (Some (insert_BinaryTree x rt)))
      else BinaryTree v l r)"

text \<open>
  \<^verbatim>\<open>add()\<close> of a binary tree throws at once. The result is the state of the receiver
  after the call, and the outcome of the call.
\<close>

definition add_BinaryTree :: "'a binary_tree \<Rightarrow> 'a binary_tree \<times> (error + unit)" where
  "add_BinaryTree this = (this, Inl UnsupportedOperation)"

text \<open>
  \<^verbatim>\<open>maxNodes()\<close>: \<^verbatim>\<open>Math.pow(2, this.height() + 1) - 1\<close>, in exact integer arithmetic
  (the source computes in doubles, which are exact here up to height 52).
\<close>

definition maxNodes :: "'a binary_tree \<Rightarrow> int" where
  "maxNodes this = 2 ^ (height (as_Tree this) + 1) - 1"

section \<open>Traversal orders and the search-tree invariant\<close>

text \<open>
  The notions the specification states properties with; the source has no function for
  them. Pre-order: a node before its children, the children in storage order, \<^verbatim>\<open>null\<close>
  slots skipped. In-order: the left subtree, the node, the right subtree. The search-tree
  invariant: at every node, the values of the left subtree are less than the node's and
  those of the right subtree are greater.
\<close>

fun preorder :: "'a tree \<Rightarrow> 'a list" where
  "preorder (Tree v cs) =
     v # concat (map (\<lambda>child. case child of None \<Rightarrow> [] | Some c \<Rightarrow> preorder c) cs)"

text \<open>The pre-order sequence of the children in an array of slots.\<close>

abbreviation preorder_slots :: "'a tree option list \<Rightarrow> 'a list" where
  "preorder_slots cs \<equiv>
     concat (map (\<lambda>child. case child of None \<Rightarrow> [] | Some c \<Rightarrow> preorder c) cs)"



text \<open>
  The rendering rule of the specification, with one renderer \<open>f\<close> for every node.
  \<open>present\<close> are the children that are not absent, in storage order. \<open>child_blocks\<close>
  takes their renderings: each starts a new line; the last one gets the corner prefix on
  its first line and two spaces on its other lines, every other one the tee prefix and
  the bar with a space. \<open>render\<close> is the value line followed by the blocks of the
  children's renderings.
\<close>

fun present :: "'a option list \<Rightarrow> 'a list" where
  "present [] = []"
| "present (None # cs) = present cs"
| "present (Some c # cs) = c # present cs"

fun child_blocks :: "jsstring list \<Rightarrow> jsstring" where
  "child_blocks [] = []"
| "child_blocks [b] = NL # [BOX_UR, BOX_H] @ replace_newlines b [SP, SP]"
| "child_blocks (b # bs) =
     NL # [BOX_VR, BOX_H] @ replace_newlines b [BOX_V, SP] @ child_blocks bs"

fun render :: "('a \<Rightarrow> jsstring) \<Rightarrow> 'a tree \<Rightarrow> jsstring" where
  "render f (Tree v cs) = f v @ child_blocks (present (map (map_option (render f)) cs))"

fun inorder :: "'a binary_tree \<Rightarrow> 'a list" where
  "inorder (BinaryTree v l r) =
     (case l of None \<Rightarrow> [] | Some lt \<Rightarrow> inorder lt) @ v #
     (case r of None \<Rightarrow> [] | Some rt \<Rightarrow> inorder rt)"

fun bst :: "'a::linorder binary_tree \<Rightarrow> bool" where
  "bst (BinaryTree v l r) =
     ((case l of None \<Rightarrow> True | Some lt \<Rightarrow> bst lt \<and> list_all (\<lambda>x. x < v) (inorder lt)) \<and>
      (case r of None \<Rightarrow> True | Some rt \<Rightarrow> bst rt \<and> list_all (\<lambda>x. v < x) (inorder rt)))"

section \<open>Example trees\<close>

text \<open>
  A sequence of mutating calls on one object, stopping at the first one that throws, and
  a call on the child in slot \<open>i\<close> (\<^verbatim>\<open>tree.children[i].m(...)\<close>).
\<close>

fun calls :: "error + 's \<Rightarrow> ('s \<Rightarrow> error + 's) list \<Rightarrow> error + 's" where
  "calls s [] = s"
| "calls s (m # ms) = (case s of Inl e \<Rightarrow> Inl e | Inr this \<Rightarrow> calls (m this) ms)"

definition on_child :: "nat \<Rightarrow> ('a tree \<Rightarrow> error + 'a tree) \<Rightarrow> 'a tree \<Rightarrow> error + 'a tree" where
  "on_child i m this =
     (if i < length (children this) then
        (case children this ! i of
           None \<Rightarrow> Inl TypeError
         | Some child \<Rightarrow>
             (case m child of
                Inl e \<Rightarrow> Inl e
              | Inr child' \<Rightarrow> Inr (Tree (tree_value this) ((children this)[i := Some child']))))
      else Inl TypeError)"

text \<open>
  The tree of the \<^verbatim>\<open>toString\<close> example: root 5, children added in the order 3, 7, 2, 4,
  then 1 and 6 under the first child and 8 under the second.
\<close>

definition example_tree :: "error + int tree" where
  "example_tree =
     calls (new_Tree (Some 5) None)
       [add (Some 3), add (Some 7), add (Some 2), add (Some 4),
        on_child 0 (add (Some 1)), on_child 0 (add (Some 6)), on_child 1 (add (Some 8))]"

text \<open>
  The binary tree of the \<^verbatim>\<open>maxNodes\<close> example: \<^verbatim>\<open>new BinaryTree(5)\<close>, then
  \<^verbatim>\<open>insert\<close> of 3, 7, 2, 4, 6.
\<close>

definition example_binary_tree :: "int binary_tree" where
  "example_binary_tree = fold insert_BinaryTree [3, 7, 2, 4, 6] (BinaryTree 5 None None)"




text \<open>
  Multi-line strings written line by line, for the renderings of the example tree: the
  seven lines the specification prints, and the same with the fourth child's line.
\<close>

definition of_ascii :: "string \<Rightarrow> jsstring" where
  "of_ascii s = map (\<lambda>c. of_nat (of_char c)) s"

definition join_lines :: "jsstring list \<Rightarrow> jsstring" where
  "join_lines ls = concat (case ls of [] \<Rightarrow> [] | l # rest \<Rightarrow> l # map (\<lambda>x. NL # x) rest)"

definition rendering_in_spec :: jsstring where
  "rendering_in_spec = join_lines
     [of_ascii ''5'',
      [BOX_VR, BOX_H] @ of_ascii ''3'',
      [BOX_V, SP, BOX_VR, BOX_H] @ of_ascii ''1'',
      [BOX_V, SP, BOX_UR, BOX_H] @ of_ascii ''6'',
      [BOX_VR, BOX_H] @ of_ascii ''7'',
      [BOX_V, SP, BOX_UR, BOX_H] @ of_ascii ''8'',
      [BOX_UR, BOX_H] @ of_ascii ''2'']"

definition rendering_with_fourth_child :: jsstring where
  "rendering_with_fourth_child = join_lines
     [of_ascii ''5'',
      [BOX_VR, BOX_H] @ of_ascii ''3'',
      [BOX_V, SP, BOX_VR, BOX_H] @ of_ascii ''1'',
      [BOX_V, SP, BOX_UR, BOX_H] @ of_ascii ''6'',
      [BOX_VR, BOX_H] @ of_ascii ''7'',
      [BOX_V, SP, BOX_UR, BOX_H] @ of_ascii ''8'',
      [BOX_VR, BOX_H] @ of_ascii ''2'',
      [BOX_UR, BOX_H] @ of_ascii ''4'']"

section \<open>BinaryTree objects in a store\<close>

text \<open>
  The \<^verbatim>\<open>parent\<close> back-reference makes the object graph cyclic, so what the
  constructor and the setters write is stated on a store of objects: a reference is an
  index into the store, \<^verbatim>\<open>null\<close> is \<open>None\<close>, and \<open>obj_parent\<close> is \<open>None\<close> as long as
  the property was never assigned. Every object of the store is made by the constructor,
  so its child array has two slots and the writes of the setters are in range.
\<close>

type_synonym ref = nat

record 'a BinaryTree_object =
  obj_value :: 'a
  obj_children :: "ref option list"
  obj_parent :: "ref option"

type_synonym 'a store = "'a BinaryTree_object list"

text \<open>
  \<^verbatim>\<open>constructor(value, left = null, right = null)\<close>: \<^verbatim>\<open>super(value)\<close>, then
  \<^verbatim>\<open>this.children = [left, right]\<close>. It returns the store with the new object, and the
  reference to it.
\<close>

definition construct_BinaryTree ::
  "'a store \<Rightarrow> 'a option \<Rightarrow> ref option \<Rightarrow> ref option \<Rightarrow> error + ('a store \<times> ref)" where
  "construct_BinaryTree s v l r =
     (case v of
        None \<Rightarrow> Inl InvalidValue
      | Some x \<Rightarrow>
          Inr (s @ [\<lparr>obj_value = x, obj_children = [l, r], obj_parent = None\<rparr>], length s))"

text \<open>\<^verbatim>\<open>get left()\<close> and \<^verbatim>\<open>get right()\<close>\<close>

definition get_left :: "'a store \<Rightarrow> ref \<Rightarrow> ref option" where
  "get_left s this = obj_children (s ! this) ! 0"

definition get_right :: "'a store \<Rightarrow> ref \<Rightarrow> ref option" where
  "get_right s this = obj_children (s ! this) ! 1"

text \<open>
  \<^verbatim>\<open>set left(value)\<close>: \<^verbatim>\<open>if (value) value.parent = this; this.children[0] = value;\<close>
  and \<^verbatim>\<open>set right(value)\<close>, the same on slot 1. The two writes are made in the source's
  order, so that a node assigned as its own child is handled as the source does.
\<close>

definition set_left :: "'a store \<Rightarrow> ref \<Rightarrow> ref option \<Rightarrow> 'a store" where
  "set_left s this v =
     (let s1 = (case v of None \<Rightarrow> s | Some c \<Rightarrow> s[c := (s ! c)\<lparr>obj_parent := Some this\<rparr>])
      in s1[this := (s1 ! this)\<lparr>obj_children := (obj_children (s1 ! this))[0 := v]\<rparr>])"

definition set_right :: "'a store \<Rightarrow> ref \<Rightarrow> ref option \<Rightarrow> 'a store" where
  "set_right s this v =
     (let s1 = (case v of None \<Rightarrow> s | Some c \<Rightarrow> s[c := (s ! c)\<lparr>obj_parent := Some this\<rparr>])
      in s1[this := (s1 ! this)\<lparr>obj_children := (obj_children (s1 ! this))[1 := v]\<rparr>])"

definition two_leaves :: "int store" where \<comment> \<open>two fresh nodes, at references 0 and 1\<close>
  "two_leaves =
     [\<lparr>obj_value = 3, obj_children = [None, None], obj_parent = None\<rparr>,
      \<lparr>obj_value = 5, obj_children = [None, None], obj_parent = None\<rparr>]"

section \<open>Height and maxNodes\<close>

lemma Math_max_Max: "Math_max xs = Max (insert 0 (set xs))"
proof -
  have "fold max xs (0::nat) = Max (set (0 # xs))"
    by (simp only: Max.set_eq_fold)
  then show ?thesis by (simp add: Math_max_def)
qed

lemma slot_heights:
  "insert 0 (set (map (\<lambda>child. case child of None \<Rightarrow> 0 | Some c \<Rightarrow> height c) cs)) =
   insert 0 (height ` {c. Some c \<in> set cs})"
proof -
  have "\<And>child. child \<in> set cs \<Longrightarrow>
      (case child of None \<Rightarrow> 0 | Some c \<Rightarrow> height c) \<in> insert 0 (height ` {c. Some c \<in> set cs})"
    by (auto split: option.splits)
  moreover have "\<And>c. Some c \<in> set cs \<Longrightarrow>
      height c \<in> (\<lambda>child. case child of None \<Rightarrow> 0 | Some c \<Rightarrow> height c) ` set cs"
    by force
  ultimately show ?thesis by auto
qed

text \<open>
  What \<^verbatim>\<open>height\<close> computes, for every node: 0 when the child array is empty, and
  otherwise one more than the greatest height of a child present, where an array that
  has slots but no child present counts as greatest height 0.
\<close>

theorem height_slots:
  "height (Tree v cs) =
     (if cs = [] then 0 else 1 + Max (insert 0 (height ` {c. Some c \<in> set cs})))"
  by (simp add: Math_max_Max slot_heights del: set_map)

text \<open>
  On a plain \<^verbatim>\<open>Tree\<close> the child array starts empty: a single node has height 0, and
  after one \<^verbatim>\<open>add\<close> the height is 1.
\<close>

theorem height_Tree_leaf_then_one_child:
  "height (Tree v []) = 0 \<and>
   (case add (Some x) (Tree v []) of Inl e \<Rightarrow> False | Inr t \<Rightarrow> height t = 1)"
  by (simp add: add_def new_Tree_def Math_max_def)

text \<open>
  Claim C1 (height of a node whose slots are all absent). The claim, like the comment on
  \<^verbatim>\<open>height\<close> in the source ("the number of edges on the longest path from the root to
  a leaf"), gives height 0 to a node with no child present. The method returns 0 only
  when the array is empty: a \<^verbatim>\<open>BinaryTree\<close> has the two slots \<^verbatim>\<open>[null, null]\<close> from its
  constructor on, so a single-node binary tree has height 1, and one with a single child
  attached has height 2.
\<close>

theorem height_BinaryTree_leaf:
  "height (as_Tree (BinaryTree v None None)) = 1 \<and>
   height (as_Tree (insert_BinaryTree 3 (BinaryTree (5::int) None None))) = 2"
  by (simp add: Math_max_def)

lemma example_binary_tree_value:
  "example_binary_tree =
     BinaryTree 5
       (Some (BinaryTree 3 (Some (BinaryTree 2 None None)) (Some (BinaryTree 4 None None))))
       (Some (BinaryTree 7 (Some (BinaryTree 6 None None)) None))"
  by (simp add: example_binary_tree_def)

text \<open>
  Claim C2 (\<^verbatim>\<open>maxNodes\<close> of the example tree). \<^verbatim>\<open>maxNodes\<close> is
  \<open>2 ^ (height + 1) - 1\<close> by its definition, but on the tree built by inserting
  5, 3, 7, 2, 4, 6, whose longest path has two edges, \<^verbatim>\<open>height\<close> returns 3 (the leaves
  count 1, as in C1), and so \<^verbatim>\<open>maxNodes\<close> returns 15 where the claim says 7.
\<close>

theorem maxNodes_example:
  "height (as_Tree example_binary_tree) = 3 \<and> maxNodes example_binary_tree = 15"
  by (simp add: example_binary_tree_value maxNodes_def Math_max_def)

text \<open>For every binary tree, \<^verbatim>\<open>maxNodes\<close> is the stated function of \<^verbatim>\<open>height\<close>.\<close>

theorem maxNodes_height:
  "maxNodes this = 2 ^ (height (as_Tree this) + 1) - 1"
  by (simp add: maxNodes_def)

section \<open>Rendering\<close>

lemma example_tree_value:
  "example_tree =
     Inr (Tree 5 [Some (Tree 3 [Some (Tree 1 []), Some (Tree 6 [])]),
                  Some (Tree 7 [Some (Tree 8 [])]), Some (Tree 2 []), Some (Tree 4 [])])"
  by (simp add: example_tree_def add_def new_Tree_def on_child_def)

lemma example_tree_toString:
  "toString Number_toString None
     (Tree 5 [Some (Tree 3 [Some (Tree 1 []), Some (Tree 6 [])]),
              Some (Tree 7 [Some (Tree 8 [])]), Some (Tree 2 []), Some (Tree 4 [])])
   = rendering_with_fourth_child"
  by (simp add: toString_loop.simps Number_toString_def digits.simps replace_newlines_def
      rendering_with_fourth_child_def join_lines_def of_ascii_def
      NL_def SP_def BOX_H_def BOX_V_def BOX_UR_def BOX_VR_def)

lemma renderings_differ: "rendering_with_fourth_child \<noteq> rendering_in_spec"
  by (simp add: rendering_with_fourth_child_def rendering_in_spec_def join_lines_def
      of_ascii_def NL_def SP_def BOX_H_def BOX_V_def BOX_UR_def BOX_VR_def)

text \<open>
  Claim C3, as stated: the example tree renders as the seven lines of the specification.
  It does not: the tree has four children and the seven lines end with the third.
\<close>

theorem toString_example_not_seven_lines:
  "\<not> (case example_tree of
        Inl e \<Rightarrow> False
      | Inr t \<Rightarrow> toString Number_toString None t = rendering_in_spec)"
  by (simp add: example_tree_value example_tree_toString renderings_differ
      del: toString.simps)

text \<open>
  Claim C3, amended: building the example tree succeeds, and \<^verbatim>\<open>toString()\<close> with no
  custom renderer returns eight lines: the seven of the specification with the branch of
  the third child drawn as a middle branch, and the fourth child as the last branch.
\<close>

theorem toString_example:
  "(case example_tree of
      Inl e \<Rightarrow> False
    | Inr t \<Rightarrow> toString Number_toString None t = rendering_with_fourth_child)"
  by (simp add: example_tree_value example_tree_toString del: toString.simps)

lemma outputs_present:
  "map (map_option f) (filter (\<lambda>child. child \<noteq> None) cs) = map Some (map f (present cs))"
  by (induction cs rule: present.induct) auto

lemma present_map: "present (map (map_option g) cs) = map g (present cs)"
  by (induction cs rule: present.induct) auto

lemma present_subset: "c \<in> set (present cs) \<Longrightarrow> Some c \<in> set cs"
  by (induction cs rule: present.induct) auto

lemma child_blocks_Cons:
  "child_blocks (b # bs) =
     NL # (if bs = [] then [BOX_UR, BOX_H] @ replace_newlines b [SP, SP]
           else [BOX_VR, BOX_H] @ replace_newlines b [BOX_V, SP] @ child_blocks bs)"
  by (cases bs) auto

lemma toString_loop_step:
  "i < length bs \<Longrightarrow>
   toString_loop (map Some bs) i out =
   toString_loop (map Some bs) (Suc i)
     (out @ NL # (if i = length bs - 1 then [BOX_UR, BOX_H] @ replace_newlines (bs ! i) [SP, SP]
                  else [BOX_VR, BOX_H] @ replace_newlines (bs ! i) [BOX_V, SP]))"
  by (subst toString_loop.simps) (simp add: Let_def)

lemma toString_loop_blocks:
  "i \<le> length bs \<Longrightarrow> toString_loop (map Some bs) i out = out @ child_blocks (drop i bs)"
proof (induction "length bs - i" arbitrary: i out)
  case 0
  then show ?case by (simp add: toString_loop.simps)
next
  case (Suc n)
  then have less: "i < length bs" by simp
  have step: "drop i bs = bs ! i # drop (Suc i) bs"
    using less by (simp add: Cons_nth_drop_Suc)
  have last: "(i = length bs - 1) = (drop (Suc i) bs = [])"
    using less by auto
  have IH: "toString_loop (map Some bs) (Suc i) out' = out' @ child_blocks (drop (Suc i) bs)"
    for out'
    using Suc.hyps(1)[of "Suc i" out'] Suc.hyps(2) less by simp
  show ?case
    unfolding toString_loop_step[OF less] IH step child_blocks_Cons last by simp
qed

lemma toString_node:
  "toString String predicate (Tree v cs) =
     (case predicate of Some p \<Rightarrow> p v | None \<Rightarrow> String v) @
     child_blocks (map (toString String None) (present cs))"
proof -
  let ?bs = "map (toString String None) (present cs)"
  let ?root = "case predicate of Some p \<Rightarrow> p v | None \<Rightarrow> String v"
  have outs: "map (map_option (toString String None)) (filter (\<lambda>child. child \<noteq> None) cs) =
      map Some ?bs"
    by (rule outputs_present)
  have len: "length (filter (\<lambda>child. child \<noteq> None) cs) = length ?bs"
    using arg_cong[OF outs, of length] by (simp only: length_map)
  have loop: "toString_loop (map Some ?bs) 0 ?root = ?root @ child_blocks ?bs"
    using toString_loop_blocks[of 0 ?bs ?root] by (simp only: le0 drop_0)
  have "toString String predicate (Tree v cs) =
      (if length ?bs = 0 then ?root else toString_loop (map Some ?bs) 0 ?root)"
    unfolding toString.simps Let_def outs len ..
  also have "\<dots> = ?root @ child_blocks ?bs"
    unfolding loop by (cases "present cs") simp_all
  finally show ?thesis .
qed

lemma toString_default_render: "toString String None t = render String t"
proof (induction t)
  case (Tree v cs)
  have "map (toString String None) (present cs) = map (render String) (present cs)"
    using Tree.IH by (auto dest: present_subset)
  then show ?case
    by (simp only: toString_node render.simps present_map option.case)
qed

lemma toString_default_render_fun: "toString String None = render String"
  by (rule ext) (rule toString_default_render)

text \<open>
  Claim C7 (the custom renderer reaches the root only). For every tree and every custom
  renderer \<open>p\<close>, the output is \<open>p\<close> of the root's value followed by the blocks of the
  children present, and the block of each child is made from the rendering of the
  child's whole subtree with the default string conversion at every node. With no custom
  renderer the output is the rendering with the default conversion at every node.
\<close>

theorem toString_custom_renderer_root_only:
  "toString String (Some p) t =
     p (tree_value t) @
     child_blocks (present (map (map_option (render String)) (children t))) \<and>
   toString String None t = render String t"
proof (cases t)
  case (Tree v cs)
  have "toString String (Some p) (Tree v cs) =
      p v @ child_blocks (map (render String) (present cs))"
    by (simp only: toString_node toString_default_render_fun option.case)
  then show ?thesis
    using Tree by (simp only: toString_default_render present_map tree.sel simp_thms)
qed

text \<open>
  On the tree 5 with the one child 3 and the custom renderer that puts a value between
  angle brackets, the root's line has the brackets and the child's line has none.
\<close>

lemma toString_custom_renderer_child_line:
  "toString Number_toString (Some (\<lambda>v. 0x003C # Number_toString v @ [0x003E]))
     (Tree 5 [Some (Tree 3 [])]) =
   [0x003C, 0x0035, 0x003E, NL, BOX_UR, BOX_H, 0x0033]"
  by (simp add: toString_loop.simps Number_toString_def digits.simps replace_newlines_def
      NL_def SP_def BOX_H_def BOX_V_def BOX_UR_def BOX_VR_def)

section \<open>Search\<close>










section \<open>Inversion\<close>

lemma map_option_invert_twice:
  assumes "\<And>c t. c \<in> set cs \<Longrightarrow> t \<in> set_option c \<Longrightarrow> invert (invert t) = t"
  shows "map (map_option invert) (map (map_option invert) cs) = cs"
  using assms
proof (induction cs)
  case Nil
  then show ?case by simp
next
  case (Cons c cs)
  have "map_option invert (map_option invert c) = c"
    using Cons.prems[of c] by (cases c) auto
  moreover have "map (map_option invert) (map (map_option invert) cs) = cs"
    using Cons.IH Cons.prems by auto
  ultimately show ?case by simp
qed

lemma invert_invert: "invert (invert t) = t"
proof (induction t)
  case (Tree v cs)
  have "map (map_option invert) (map (map_option invert) cs) = cs"
    using Tree.IH by (rule map_option_invert_twice)
  then show ?case by (simp add: rev_map)
qed

lemma mset_concat_rev: "mset (concat (rev xss)) = mset (concat xss)"
  by (induction xss) auto

lemma mset_preorder_invert: "mset (preorder (invert t)) = mset (preorder t)"
proof (induction t)
  case (Tree v cs)
  have "mset (preorder_slots (map (map_option invert) cs)) = mset (preorder_slots cs)"
    using Tree.IH
  proof (induction cs)
    case Nil
    then show ?case by simp
  next
    case (Cons c cs)
    then show ?case by (cases c) auto
  qed
  then show ?case
    by (simp add: rev_map[symmetric] mset_concat_rev del: mset_concat)
qed

text \<open>
  Claim C8 (\<^verbatim>\<open>invert\<close> is an involution that leaves values alone). Inverting twice gives
  back the tree, with every child array in its original order. One inversion keeps the
  value of the node it is called on, puts the inverted children in reverse order, and
  keeps the values of the tree with their multiplicities.
\<close>

theorem invert_involution:
  "invert (invert t) = t \<and>
   tree_value (invert t) = tree_value t \<and>
   children (invert t) = rev (map (map_option invert) (children t)) \<and>
   mset (preorder (invert t)) = mset (preorder t)"
proof -
  have "tree_value (invert t) = tree_value t \<and>
        children (invert t) = rev (map (map_option invert) (children t))"
    by (cases t) (simp add: rev_map)
  then show ?thesis
    by (simp add: invert_invert mset_preorder_invert)
qed

section \<open>Construction and the disabled add\<close>

text \<open>
  Claim C9 (the \<^verbatim>\<open>Tree\<close> constructor). Without a value (\<^verbatim>\<open>undefined\<close>) the constructor
  throws the error with the message "The value of a tree cannot be undefined." and
  returns no node, whatever the children. With a value it returns the node with that
  value and the children list it was given, the empty list when none was given.
\<close>

theorem new_Tree_result:
  "new_Tree None cs = Inl InvalidValue \<and>
   InvalidValue = Error ''The value of a tree cannot be undefined.'' \<and>
   new_Tree (Some v) (Some ys) = Inr (Tree v ys) \<and>
   new_Tree (Some v) None = Inr (Tree v [])"
  by (simp add: new_Tree_def InvalidValue_def)

text \<open>
  Claim C6 (\<^verbatim>\<open>add\<close> of a binary tree). On every binary tree the call throws the error
  whose message sends the caller to \<^verbatim>\<open>insert\<close>, and the tree after the call is the tree
  before it.
\<close>

theorem add_BinaryTree_throws:
  "add_BinaryTree this = (this, Inl UnsupportedOperation) \<and>
   UnsupportedOperation =
     Error ''BinaryTree.add is not a function. Use BinaryTree.insert instead.''"
  by (simp add: add_BinaryTree_def UnsupportedOperation_def)

section \<open>Ordered insertion\<close>

text \<open>The leaf that \<^verbatim>\<open>insert\<close> attaches is the node \<^verbatim>\<open>new BinaryTree(x)\<close> returns.\<close>

lemma new_BinaryTree_leaf: "new_BinaryTree (Some x) None None = Inr (BinaryTree x None None)"
  by (simp add: new_BinaryTree_def new_Tree_def)

lemma set_inorder_insert:
  "set (inorder (insert_BinaryTree x t)) = {x} \<union> set (inorder t)"
  by (induction x t rule: insert_BinaryTree.induct) (auto split: option.splits)

lemma bst_insert: "bst t \<Longrightarrow> bst (insert_BinaryTree x t)"
  by (induction x t rule: insert_BinaryTree.induct)
     (auto simp: list_all_iff set_inorder_insert split: option.splits)

lemma bst_sorted_inorder: "bst t \<Longrightarrow> sorted_wrt (<) (inorder t)"
proof (induction t)
  case (BinaryTree v l r)
  then show ?case
    by (cases l; cases r) (fastforce simp: sorted_wrt_append list_all_iff)+
qed

lemma insert_present: "bst t \<Longrightarrow> x \<in> set (inorder t) \<Longrightarrow> insert_BinaryTree x t = t"
  by (induction x t rule: insert_BinaryTree.induct)
     (auto simp: list_all_iff split: option.splits)

lemma bst_fold_insert: "bst t \<Longrightarrow> bst (fold insert_BinaryTree xs t)"
  by (induction xs arbitrary: t) (auto simp: bst_insert)

lemma set_inorder_fold_insert:
  "set (inorder (fold insert_BinaryTree xs t)) = set xs \<union> set (inorder t)"
  by (induction xs arbitrary: t) (auto simp: set_inorder_insert)

text \<open>
  Claim C4 (insertion keeps a search tree). Take a fresh binary tree \<^verbatim>\<open>new BinaryTree(r)\<close>
  and insert the values \<open>xs\<close> in order. In the resulting tree the search-tree invariant
  holds at every node; the in-order traversal is strictly increasing and holds exactly
  the values \<open>r\<close> and \<open>xs\<close>, so each distinct value once, in sorted order; and inserting
  any of these values again leaves the tree as it is.
\<close>

theorem insert_sequence_sorted:
  fixes r :: "'a::linorder"
  shows "bst (fold insert_BinaryTree xs (BinaryTree r None None)) \<and>
     sorted_wrt (<) (inorder (fold insert_BinaryTree xs (BinaryTree r None None))) \<and>
     set (inorder (fold insert_BinaryTree xs (BinaryTree r None None))) = set (r # xs) \<and>
     (\<forall>x \<in> set (r # xs).
        insert_BinaryTree x (fold insert_BinaryTree xs (BinaryTree r None None)) =
        fold insert_BinaryTree xs (BinaryTree r None None))"
proof -
  let ?t = "fold insert_BinaryTree xs (BinaryTree r None None)"
  have b: "bst ?t" by (rule bst_fold_insert) simp
  have s: "set (inorder ?t) = set (r # xs)" by (auto simp: set_inorder_fold_insert)
  show ?thesis using b s bst_sorted_inorder[OF b] insert_present[OF b] by metis
qed

theorem insert_sequence_sorted_witness:
  "inorder (fold insert_BinaryTree [3, 7, 3, 2, 5, 4, 6, 7] (BinaryTree (5::int) None None))
     = [2, 3, 4, 5, 6, 7] \<and>
   bst (fold insert_BinaryTree [3, 7, 3, 2, 5, 4, 6, 7] (BinaryTree (5::int) None None)) \<and>
   insert_BinaryTree 4
     (fold insert_BinaryTree [3, 7, 3, 2, 5, 4, 6, 7] (BinaryTree (5::int) None None)) =
   fold insert_BinaryTree [3, 7, 3, 2, 5, 4, 6, 7] (BinaryTree (5::int) None None)"
  using insert_sequence_sorted[of "[3, 7, 3, 2, 5, 4, 6, 7]" "5::int"] by simp

section \<open>The parent back-reference\<close>

lemma set_left_null_parents:
  "this < length s \<Longrightarrow> map obj_parent (set_left s this None) = map obj_parent s"
  by (simp add: set_left_def map_update list_update_same_conv)

lemma set_right_null_parents:
  "this < length s \<Longrightarrow> map obj_parent (set_right s this None) = map obj_parent s"
  by (simp add: set_right_def map_update list_update_same_conv)

lemma set_left_parent:
  "c < length s \<Longrightarrow> this < length s \<Longrightarrow>
   obj_parent (set_left s this (Some c) ! c) = Some this"
  by (simp add: set_left_def Let_def nth_list_update)

lemma set_right_parent:
  "c < length s \<Longrightarrow> this < length s \<Longrightarrow>
   obj_parent (set_right s this (Some c) ! c) = Some this"
  by (simp add: set_right_def Let_def nth_list_update)

lemma construct_BinaryTree_frame:
  "c < length s \<Longrightarrow>
   \<exists>s' new. construct_BinaryTree s (Some v) l r = Inr (s', new) \<and> new = length s \<and>
     get_left s' new = l \<and> get_right s' new = r \<and>
     obj_parent (s' ! new) = None \<and> s' ! c = s ! c"
  by (simp add: construct_BinaryTree_def get_left_def get_right_def nth_append)

text \<open>
  Claim C10 (who writes \<^verbatim>\<open>parent\<close>). Let \<open>c\<close> and \<open>this\<close> be objects of the store.
  Constructing a binary tree with \<open>c\<close> as its left or as its right child makes \<open>c\<close> the
  child of the new node and leaves the \<^verbatim>\<open>parent\<close> of \<open>c\<close> as it was. Assigning \<open>c\<close>
  through the \<^verbatim>\<open>left\<close> or the \<^verbatim>\<open>right\<close> setter of \<open>this\<close> sets the \<^verbatim>\<open>parent\<close> of \<open>c\<close> to
  \<open>this\<close>. Assigning \<^verbatim>\<open>null\<close> through a setter writes no \<^verbatim>\<open>parent\<close>.
\<close>

theorem parent_written_by_setters_only:
  assumes "c < length s" and "this < length s"
  shows "(\<exists>s' new. construct_BinaryTree s (Some v) (Some c) r = Inr (s', new) \<and>
            get_left s' new = Some c \<and> obj_parent (s' ! c) = obj_parent (s ! c)) \<and>
         (\<exists>s' new. construct_BinaryTree s (Some v) l (Some c) = Inr (s', new) \<and>
            get_right s' new = Some c \<and> obj_parent (s' ! c) = obj_parent (s ! c)) \<and>
         obj_parent (set_left s this (Some c) ! c) = Some this \<and>
         obj_parent (set_right s this (Some c) ! c) = Some this \<and>
         map obj_parent (set_left s this None) = map obj_parent s \<and>
         map obj_parent (set_right s this None) = map obj_parent s"
proof -
  have "\<exists>s' new. construct_BinaryTree s (Some v) (Some c) r = Inr (s', new) \<and>
            get_left s' new = Some c \<and> obj_parent (s' ! c) = obj_parent (s ! c)"
    using construct_BinaryTree_frame[OF assms(1), of v "Some c" r] by auto
  moreover have "\<exists>s' new. construct_BinaryTree s (Some v) l (Some c) = Inr (s', new) \<and>
            get_right s' new = Some c \<and> obj_parent (s' ! c) = obj_parent (s ! c)"
    using construct_BinaryTree_frame[OF assms(1), of v l "Some c"] by auto
  ultimately show ?thesis
    using assms
    by (simp only: set_left_parent set_right_parent set_left_null_parents
        set_right_null_parents)
qed

theorem parent_written_by_setters_only_witness:
  "obj_parent (two_leaves ! 0) = None \<and>
   (\<exists>s' new. construct_BinaryTree two_leaves (Some 7) (Some 0) None = Inr (s', new) \<and>
      get_left s' new = Some 0 \<and> obj_parent (s' ! 0) = None) \<and>
   obj_parent (set_left two_leaves 1 (Some 0) ! 0) = Some 1 \<and>
   obj_parent (set_right two_leaves 1 (Some 0) ! 0) = Some 1"
  using parent_written_by_setters_only[of 0 two_leaves 1 7 None None]
  by (simp add: two_leaves_def)

end
